theory Spec2Isabelle
  imports Main
begin

section \<open>Client-side interceptor chains of package \<open>drcpclient\<close>\<close>

text \<open>
  The development embeds the two source files of package \<open>drcpclient\<close>
  (\<open>clientconn.go\<close> and the dial options that follow it), first with the options as
  values and then with the options in memory, and the options, the chain compiler and
  the constructors of packages \<open>drpcinterceptors\<close> and \<open>drcpclientconn\<close>, which the
  repository also holds.

  Go functions have effects and may panic. A call is therefore a function from the
  world before the call to the outcome (\<open>Inl\<close> a panic, \<open>Inr\<close> the returned values)
  paired with the world after it. The world \<open>'w\<close> is everything the interceptors and
  the underlying connection can read and write: payload slots, logs, the network.
\<close>

subsection \<open>Values of the drpc library\<close>

text \<open>
  \<open>context.Context\<close>, \<open>drpc.Encoding\<close>, \<open>drpc.Message\<close>, \<open>drpc.Stream\<close> and
  \<open>error\<close> are interfaces whose values the chain only passes along. Each is a
  handle identified by a number (a name for errors); \<open>None\<close> is Go's \<open>nil\<close>.
\<close>

datatype "context" = Context nat
datatype encoding = Encoding nat
datatype message = Message nat
datatype stream = Stream nat
datatype error = Error string
datatype any = Any nat

datatype fault =
    IndexOutOfRange nat nat   \<comment> \<open>index, length of the slice\<close>
  | NilDereference
  | Panic string              \<comment> \<open>a panic raised by caller-supplied code\<close>

type_synonym addr = nat

type_synonym ('r, 'w) call = "'w \<Rightarrow> (fault + 'r) \<times> 'w"

type_synonym 'w UnaryInvoker =
  "context \<Rightarrow> string \<Rightarrow> encoding \<Rightarrow> message \<Rightarrow> message \<Rightarrow> (error option, 'w) call"

type_synonym 'w Streamer =
  "context \<Rightarrow> string \<Rightarrow> encoding \<Rightarrow> (stream option \<times> error option, 'w) call"

text \<open>
  The interface \<open>drpc.Conn\<close> is declared outside the two packages. A connection that is
  not a \<open>ClientConn\<close> is given by its method table: \<open>Invoke\<close>, \<open>NewStream\<close>, and
  every other method of the interface (\<open>Close\<close>, \<open>Closed\<close>, \<open>Transport\<close>, ...)
  under its name in \<open>Other\<close>.
\<close>

record 'w drpcConn =
  Invoke :: "'w UnaryInvoker"
  NewStream :: "'w Streamer"
  Other :: "string \<Rightarrow> (any, 'w) call"

text \<open>
  \<^verbatim>\<open>type ClientConn struct { drpc.Conn; dopts *DialOptions }\<close>

  A value of interface type \<open>drpc.Conn\<close> is \<open>nil\<close>, a connection of the library, or a
  \<open>ClientConn\<close>, which embeds a \<open>drpc.Conn\<close> again and points to its options.
\<close>

datatype 'w conn = NilConn | Native "'w drpcConn" | Wrapper "'w ClientConn"
and 'w ClientConn = ClientConn (Conn: "'w conn") (dopts: addr)

type_synonym 'w UnaryClientInterceptor =
  "context \<Rightarrow> string \<Rightarrow> encoding \<Rightarrow> message \<Rightarrow> message \<Rightarrow> 'w conn \<Rightarrow> 'w UnaryInvoker
     \<Rightarrow> (error option, 'w) call"

type_synonym 'w StreamClientInterceptor =
  "context \<Rightarrow> string \<Rightarrow> encoding \<Rightarrow> 'w conn \<Rightarrow> 'w Streamer
     \<Rightarrow> (stream option \<times> error option, 'w) call"

record 'w DialOptions =
  chainedUnaryInt :: "'w UnaryClientInterceptor option"
  unaryInts :: "'w UnaryClientInterceptor list"
  chainedStreamInt :: "'w StreamClientInterceptor option"
  streamInts :: "'w StreamClientInterceptor list"

type_synonym 'w DialOption = "'w DialOptions \<Rightarrow> 'w DialOptions"

text \<open>
  \<open>DialOptions\<close> values are reached through pointers. The store of all allocated
  \<open>DialOptions\<close> is a list, an address is an index into it, and allocation appends.
\<close>

type_synonym 'w heap = "'w DialOptions list"

definition deref :: "'w heap \<Rightarrow> addr \<Rightarrow> 'w DialOptions option" where
  "deref h a = (if a < length h then Some (h ! a) else None)"

subsection \<open>Dial options\<close>

definition WithChainUnaryInterceptor :: "'w UnaryClientInterceptor list \<Rightarrow> 'w DialOption" where
  "WithChainUnaryInterceptor ints = (\<lambda>opt. opt\<lparr>unaryInts := unaryInts opt @ ints\<rparr>)"

definition WithChainStreamInterceptor :: "'w StreamClientInterceptor list \<Rightarrow> 'w DialOption" where
  "WithChainStreamInterceptor ints = (\<lambda>opt. opt\<lparr>streamInts := streamInts opt @ ints\<rparr>)"

text \<open>
  An option receives the pointer to the options under construction. The two options of
  the package update a field through it and do not keep it, so an option is a function
  from the value before to the value after.

  The loop inside the closure of \<open>chainUnaryClientInterceptors\<close>,
  \<^verbatim>\<open>for i := n - 1; i >= 0; i-- { next := chained; interceptor := d.unaryInts[i]; chained = ... }\<close>
  with the counter \<open>i + 1\<close> as the recursion argument, so that \<open>Suc i\<close> is an iteration
  at index \<open>i\<close> and \<open>0\<close> is the exit. The slice access is bounds-checked as Go does.

  The bound \<open>n\<close> is computed when the chain is compiled; the closure reads the slice
  through \<open>d\<close> when it is called. The package writes the two slices only while
  \<open>newDialOptions\<close> applies the options, before it compiles, so the closure of the model
  holds the slice of compilation time. The section on the options in memory models the
  pointer, the assignment and the read at call time.
\<close>

fun chainUnaryLoop ::
  "'w UnaryClientInterceptor list \<Rightarrow> 'w conn \<Rightarrow> nat \<Rightarrow> 'w UnaryInvoker \<Rightarrow> fault + 'w UnaryInvoker"
where
  "chainUnaryLoop ints conn 0 chained = Inr chained"
| "chainUnaryLoop ints conn (Suc i) chained =
     (if i < length ints then
        (let next = chained;
             interceptor = ints ! i
         in chainUnaryLoop ints conn i
              (\<lambda>ctx rpc enc inm outm. interceptor ctx rpc enc inm outm conn next))
      else Inl (IndexOutOfRange i (length ints)))"

definition chainUnaryClientInterceptors :: "'w DialOptions \<Rightarrow> 'w DialOptions" where
  "chainUnaryClientInterceptors d =
     (let n = length (unaryInts d)
      in d\<lparr>chainedUnaryInt := Some (\<lambda>ctx rpc enc inm outm conn invoker w.
              case chainUnaryLoop (unaryInts d) conn n invoker of
                Inl f \<Rightarrow> (Inl f, w)
              | Inr chained \<Rightarrow> chained ctx rpc enc inm outm w)\<rparr>)"

fun chainStreamLoop ::
  "'w StreamClientInterceptor list \<Rightarrow> 'w conn \<Rightarrow> nat \<Rightarrow> 'w Streamer \<Rightarrow> fault + 'w Streamer"
where
  "chainStreamLoop ints conn 0 chained = Inr chained"
| "chainStreamLoop ints conn (Suc i) chained =
     (if i < length ints then
        (let next = chained;
             interceptor = ints ! i
         in chainStreamLoop ints conn i
              (\<lambda>ctx rpc enc. interceptor ctx rpc enc conn next))
      else Inl (IndexOutOfRange i (length ints)))"

text \<open>The stream chain takes its bound \<open>n\<close> from \<open>d.unaryInts\<close>, as the source does.\<close>

definition chainStreamClientInterceptors :: "'w DialOptions \<Rightarrow> 'w DialOptions" where
  "chainStreamClientInterceptors d =
     (let n = length (unaryInts d)
      in d\<lparr>chainedStreamInt := Some (\<lambda>ctx rpc enc conn streamer w.
              case chainStreamLoop (streamInts d) conn n streamer of
                Inl f \<Rightarrow> (Inl f, w)
              | Inr chained \<Rightarrow> chained ctx rpc enc w)\<rparr>)"

text \<open>\<^verbatim>\<open>for _, opt := range opts { opt(options) }\<close>\<close>

fun applyOpts :: "'w DialOptions \<Rightarrow> 'w DialOption list \<Rightarrow> 'w DialOptions" where
  "applyOpts options [] = options"
| "applyOpts options (opt # opts) = applyOpts (opt options) opts"

definition emptyDialOptions :: "'w DialOptions" where
  "emptyDialOptions =
     \<lparr>chainedUnaryInt = None, unaryInts = [], chainedStreamInt = None, streamInts = []\<rparr>"

text \<open>
  \<open>newDialOptions\<close> allocates a \<open>DialOptions\<close>, fills it and returns the pointer. Nothing
  else holds the pointer while it is filled, so the value is built first and stored at
  the fresh address at the end.
\<close>

definition newDialOptions :: "'w DialOption list \<Rightarrow> 'w heap \<Rightarrow> addr \<times> 'w heap" where
  "newDialOptions opts h =
     (let options = applyOpts emptyDialOptions opts;
          options = chainUnaryClientInterceptors options;
          options = chainStreamClientInterceptors options
      in (length h, h @ [options]))"

subsection \<open>The wrapping connection\<close>

text \<open>
  \<open>NewClientConnWithOptions\<close> asks the dialer for a connection first. On an error it
  returns \<open>nil\<close> and the error; otherwise it builds the options and the wrapper.
  A dialer returns a \<open>drpc.Conn\<close> (possibly \<open>NilConn\<close>) and an error.
\<close>

type_synonym 'w dialer = "context \<Rightarrow> ('w conn \<times> error option, 'w) call"

definition NewClientConnWithOptions ::
  "context \<Rightarrow> 'w dialer \<Rightarrow> 'w DialOption list \<Rightarrow> 'w heap \<Rightarrow> 'w
     \<Rightarrow> (fault + 'w ClientConn option \<times> error option) \<times> 'w heap \<times> 'w"
where
  "NewClientConnWithOptions ctx dialer dialOpts h w =
     (case dialer ctx w of
        (Inl f, w') \<Rightarrow> (Inl f, h, w')
      | (Inr (conn, Some err), w') \<Rightarrow> (Inr (None, Some err), h, w')
      | (Inr (conn, None), w') \<Rightarrow>
          (let (dopts, h') = newDialOptions dialOpts h;
               clientConn = ClientConn conn dopts
           in (Inr (Some clientConn, None), h', w')))"

text \<open>
  A method call on a \<open>drpc.Conn\<close> value dispatches on what the value holds: the method
  table of a library connection, or the methods of \<open>ClientConn\<close> below. Taking a method
  of a \<open>nil\<close> interface value panics.

  \<open>ClientConn.Invoke\<close> and \<open>ClientConn.NewStream\<close> read \<open>c.dopts\<close> in the heap and
  pass \<open>c\<close> itself, as a \<open>drpc.Conn\<close>, to the chained interceptor.
\<close>

fun conn_Invoke :: "'w heap \<Rightarrow> 'w conn \<Rightarrow> 'w UnaryInvoker"
and ClientConn_Invoke :: "'w heap \<Rightarrow> 'w ClientConn \<Rightarrow> 'w UnaryInvoker"
where
  "conn_Invoke h NilConn = (\<lambda>ctx rpc enc inm outm w. (Inl NilDereference, w))"
| "conn_Invoke h (Native u) = Invoke u"
| "conn_Invoke h (Wrapper c) = ClientConn_Invoke h c"
| "ClientConn_Invoke h (ClientConn cn a) = (\<lambda>ctx rpc enc inm outm w.
     case cn of
       NilConn \<Rightarrow> (Inl NilDereference, w)
     | _ \<Rightarrow>
        (let invoker = conn_Invoke h cn
         in case deref h a of
              None \<Rightarrow> (Inl NilDereference, w)
            | Some d \<Rightarrow>
               (case chainedUnaryInt d of
                  Some chain \<Rightarrow> chain ctx rpc enc inm outm (Wrapper (ClientConn cn a)) invoker w
                | None \<Rightarrow> invoker ctx rpc enc inm outm w)))"

fun conn_NewStream :: "'w heap \<Rightarrow> 'w conn \<Rightarrow> 'w Streamer"
and ClientConn_NewStream :: "'w heap \<Rightarrow> 'w ClientConn \<Rightarrow> 'w Streamer"
where
  "conn_NewStream h NilConn = (\<lambda>ctx rpc enc w. (Inl NilDereference, w))"
| "conn_NewStream h (Native u) = NewStream u"
| "conn_NewStream h (Wrapper c) = ClientConn_NewStream h c"
| "ClientConn_NewStream h (ClientConn cn a) = (\<lambda>ctx rpc enc w.
     case cn of
       NilConn \<Rightarrow> (Inl NilDereference, w)
     | _ \<Rightarrow>
        (let streamer = conn_NewStream h cn
         in case deref h a of
              None \<Rightarrow> (Inl NilDereference, w)
            | Some d \<Rightarrow>
               (case chainedStreamInt d of
                  Some chain \<Rightarrow> chain ctx rpc enc (Wrapper (ClientConn cn a)) streamer w
                | None \<Rightarrow> streamer ctx rpc enc w)))"

text \<open>
  \<open>ClientConn\<close> declares no other method. Every other method of \<open>drpc.Conn\<close> is
  promoted from the embedded field: \<open>c.M()\<close> is \<open>c.Conn.M()\<close>.
\<close>

fun conn_Other :: "'w heap \<Rightarrow> 'w conn \<Rightarrow> string \<Rightarrow> (any, 'w) call"
and ClientConn_Other :: "'w heap \<Rightarrow> 'w ClientConn \<Rightarrow> string \<Rightarrow> (any, 'w) call"
where
  "conn_Other h NilConn = (\<lambda>m w. (Inl NilDereference, w))"
| "conn_Other h (Native u) = Other u"
| "conn_Other h (Wrapper c) = ClientConn_Other h c"
| "ClientConn_Other h (ClientConn cn a) = conn_Other h cn"

subsection \<open>The interceptors of the package's test\<close>

text \<open>
  \<^verbatim>\<open>interceptorCalls = append(interceptorCalls, "interceptor1_before")
  err := invoker(ctx, method, enc, in, out)
  interceptorCalls = append(interceptorCalls, "interceptor1_after")
  return err\<close>

  The world of the test has the slice \<open>interceptorCalls\<close>, and whatever else the
  connection uses. When \<open>invoker\<close> panics, the lines after the call do not run.
\<close>

record testWorld =
  interceptorCalls :: "string list"

definition recordCall :: "string \<Rightarrow> 'z testWorld_scheme \<Rightarrow> 'z testWorld_scheme" where
  "recordCall s w = w\<lparr>interceptorCalls := interceptorCalls w @ [s]\<rparr>"

definition interceptor :: "string \<Rightarrow> ('z testWorld_scheme) UnaryClientInterceptor" where
  "interceptor name = (\<lambda>ctx method enc inm outm conn invoker w.
     (let w = recordCall (name @ ''_before'') w
      in case invoker ctx method enc inm outm w of
           (Inl f, w) \<Rightarrow> (Inl f, w)
         | (Inr err, w) \<Rightarrow>
             (let w = recordCall (name @ ''_after'') w
              in (Inr err, w))))"

text \<open>
  The test has no stream interceptor. This one is written in the same way: it records
  its entry and returns what opening the stream returns.
\<close>

definition streamInterceptor :: "string \<Rightarrow> ('z testWorld_scheme) StreamClientInterceptor" where
  "streamInterceptor name = (\<lambda>ctx method enc conn streamer w.
     (let w = recordCall (name @ ''_before'') w
      in streamer ctx method enc w))"

section \<open>Packages \<open>drpcinterceptors\<close> and \<open>drcpclientconn\<close>\<close>

text \<open>
  The repository has a second package with the same declarations in another argument
  order, and with a \<open>switch\<close> on the number of interceptors. Where a name is declared
  in both packages, the one of \<open>drpcinterceptors\<close> carries a prime. Its compiler
  passes the connection handle along without looking at it, so the handle has any
  type \<open>'h\<close>.
\<close>

type_synonym 'w UnaryInvoker' =
  "context \<Rightarrow> string \<Rightarrow> message \<Rightarrow> message \<Rightarrow> encoding \<Rightarrow> (error option, 'w) call"

type_synonym ('h, 'w) UnaryClientInterceptor' =
  "context \<Rightarrow> string \<Rightarrow> message \<Rightarrow> message \<Rightarrow> 'h \<Rightarrow> encoding \<Rightarrow> 'w UnaryInvoker'
     \<Rightarrow> (error option, 'w) call"

type_synonym 'w Streamer' =
  "context \<Rightarrow> string \<Rightarrow> (stream option \<times> error option, 'w) call"

type_synonym ('h, 'w) StreamClientInterceptor' =
  "context \<Rightarrow> string \<Rightarrow> 'h \<Rightarrow> 'w Streamer' \<Rightarrow> (stream option \<times> error option, 'w) call"

record ('h, 'w) DialOptions' =
  UnaryInt :: "('h, 'w) UnaryClientInterceptor' option"
  unaryInts' :: "('h, 'w) UnaryClientInterceptor' list"
  StreamInt :: "('h, 'w) StreamClientInterceptor' option"
  streamInts' :: "('h, 'w) StreamClientInterceptor' list"

fun ChainUnaryLoop ::
  "('h, 'w) UnaryClientInterceptor' list \<Rightarrow> 'h \<Rightarrow> nat \<Rightarrow> 'w UnaryInvoker'
     \<Rightarrow> fault + 'w UnaryInvoker'"
where
  "ChainUnaryLoop ints conn 0 chained = Inr chained"
| "ChainUnaryLoop ints conn (Suc i) chained =
     (if i < length ints then
        (let next = chained;
             interceptor = ints ! i
         in ChainUnaryLoop ints conn i
              (\<lambda>ctx method inm outm enc. interceptor ctx method inm outm conn enc next))
      else Inl (IndexOutOfRange i (length ints)))"

definition ChainUnaryClientInterceptors :: "('h, 'w) DialOptions' \<Rightarrow> ('h, 'w) DialOptions'" where
  "ChainUnaryClientInterceptors d =
     (let n = length (unaryInts' d)
      in if n = 0 then d\<lparr>UnaryInt := None\<rparr>
         else if n = 1 then d\<lparr>UnaryInt := Some (unaryInts' d ! 0)\<rparr>
         else d\<lparr>UnaryInt := Some (\<lambda>ctx method inm outm conn enc invoker w.
                case ChainUnaryLoop (unaryInts' d) conn n invoker of
                  Inl f \<Rightarrow> (Inl f, w)
                | Inr chained \<Rightarrow> chained ctx method inm outm enc w)\<rparr>)"

fun ChainStreamLoop ::
  "('h, 'w) StreamClientInterceptor' list \<Rightarrow> 'h \<Rightarrow> nat \<Rightarrow> 'w Streamer' \<Rightarrow> fault + 'w Streamer'"
where
  "ChainStreamLoop ints conn 0 chained = Inr chained"
| "ChainStreamLoop ints conn (Suc i) chained =
     (if i < length ints then
        (let next = chained;
             interceptor = ints ! i
         in ChainStreamLoop ints conn i
              (\<lambda>ctx method. interceptor ctx method conn next))
      else Inl (IndexOutOfRange i (length ints)))"

definition ChainStreamClientInterceptors :: "('h, 'w) DialOptions' \<Rightarrow> ('h, 'w) DialOptions'" where
  "ChainStreamClientInterceptors d =
     (let n = length (streamInts' d)
      in if n = 0 then d\<lparr>StreamInt := None\<rparr>
         else if n = 1 then d\<lparr>StreamInt := Some (streamInts' d ! 0)\<rparr>
         else d\<lparr>StreamInt := Some (\<lambda>ctx method conn streamer w.
                case ChainStreamLoop (streamInts' d) conn n streamer of
                  Inl f \<Rightarrow> (Inl f, w)
                | Inr chained \<Rightarrow> chained ctx method w)\<rparr>)"











section \<open>Package \<open>drcpclient\<close> with the options in memory\<close>

text \<open>
  In the model above a \<open>DialOptions\<close> is a value and a compiled chain is a function
  that holds the interceptor list. In the program an option receives the pointer to
  the \<open>DialOptions\<close>, the compilers assign a field through the pointer \<open>d\<close>, and the
  func literal they assign closes over \<open>n\<close> and \<open>d\<close>: it reads \<open>d.unaryInts\<close> when
  it is called. This section models the package once more with that memory.

  A func value is a func the caller supplied, or the closure made by one evaluation of
  the func literal of a compiler. The closure is identified by the number of that
  evaluation and holds the \<open>n\<close> and the \<open>d\<close> it closes over.
\<close>

datatype 'w unaryFunc =
    UnarySupplied "'w UnaryClientInterceptor"
  | UnaryLiteral nat nat addr      \<comment> \<open>number of the evaluation, \<open>n\<close>, \<open>d\<close>\<close>

datatype 'w streamFunc =
    StreamSupplied "'w StreamClientInterceptor"
  | StreamLiteral nat nat addr

record 'w DialOptions_ptr =
  chainedUnaryInt_ptr :: "'w unaryFunc option"
  unaryInts_ptr :: "'w UnaryClientInterceptor list"
  chainedStreamInt_ptr :: "'w streamFunc option"
  streamInts_ptr :: "'w StreamClientInterceptor list"

text \<open>
  The store holds the allocated \<open>DialOptions\<close> (an address is an index) and counts the
  evaluations of the compilers' func literals.
\<close>

record 'w store =
  cells :: "'w DialOptions_ptr list"
  literals :: nat

definition deref_ptr :: "'w store \<Rightarrow> addr \<Rightarrow> 'w DialOptions_ptr option" where
  "deref_ptr s d = (if d < length (cells s) then Some (cells s ! d) else None)"

definition assign :: "addr \<Rightarrow> 'w DialOptions_ptr \<Rightarrow> 'w store \<Rightarrow> 'w store" where
  "assign d v s = s\<lparr>cells := (cells s)[d := v]\<rparr>"

text \<open>
  \<^verbatim>\<open>type DialOption func(options *DialOptions)\<close>

  An option is called with the pointer and works on the store. It may have kept the
  pointers of earlier calls: in the model it can write at any address. It has no
  access to the world of the calls.
\<close>

type_synonym 'w DialOption_ptr = "addr \<Rightarrow> (unit, 'w store) call"

definition WithChainUnaryInterceptor_ptr ::
  "'w UnaryClientInterceptor list \<Rightarrow> 'w DialOption_ptr" where
  "WithChainUnaryInterceptor_ptr ints = (\<lambda>opt s.
     case deref_ptr s opt of
       None \<Rightarrow> (Inl NilDereference, s)
     | Some v \<Rightarrow> (Inr (), assign opt (v\<lparr>unaryInts_ptr := unaryInts_ptr v @ ints\<rparr>) s))"


fun applyOpts_ptr :: "addr \<Rightarrow> 'w DialOption_ptr list \<Rightarrow> (unit, 'w store) call" where
  "applyOpts_ptr options [] s = (Inr (), s)"
| "applyOpts_ptr options (opt # opts) s =
     (case opt options s of
        (Inl f, s) \<Rightarrow> (Inl f, s)
      | (Inr _, s) \<Rightarrow> applyOpts_ptr options opts s)"

text \<open>
  \<^verbatim>\<open>n := len(d.unaryInts)
  d.chainedUnaryInt = func(...) error { ... }\<close>

  Each compiler evaluates its func literal once and assigns the closure to the field.
\<close>

definition chainUnaryClientInterceptors_ptr :: "addr \<Rightarrow> (unit, 'w store) call" where
  "chainUnaryClientInterceptors_ptr d s =
     (case deref_ptr s d of
        None \<Rightarrow> (Inl NilDereference, s)
      | Some v \<Rightarrow>
          (let n = length (unaryInts_ptr v);
               closure = UnaryLiteral (literals s) n d;
               s = s\<lparr>literals := Suc (literals s)\<rparr>
           in (Inr (), assign d (v\<lparr>chainedUnaryInt_ptr := Some closure\<rparr>) s)))"

definition chainStreamClientInterceptors_ptr :: "addr \<Rightarrow> (unit, 'w store) call" where
  "chainStreamClientInterceptors_ptr d s =
     (case deref_ptr s d of
        None \<Rightarrow> (Inl NilDereference, s)
      | Some v \<Rightarrow>
          (let n = length (unaryInts_ptr v);
               closure = StreamLiteral (literals s) n d;
               s = s\<lparr>literals := Suc (literals s)\<rparr>
           in (Inr (), assign d (v\<lparr>chainedStreamInt_ptr := Some closure\<rparr>) s)))"

definition emptyDialOptions_ptr :: "'w DialOptions_ptr" where
  "emptyDialOptions_ptr =
     \<lparr>chainedUnaryInt_ptr = None, unaryInts_ptr = [],
      chainedStreamInt_ptr = None, streamInts_ptr = []\<rparr>"

text \<open>
  \<^verbatim>\<open>options := &DialOptions{}
  for _, opt := range opts { opt(options) }
  options.chainUnaryClientInterceptors()
  options.chainStreamClientInterceptors()
  return options\<close>
\<close>

definition newDialOptions_ptr :: "'w DialOption_ptr list \<Rightarrow> (addr, 'w store) call" where
  "newDialOptions_ptr opts s =
     (let options = length (cells s);
          s = s\<lparr>cells := cells s @ [emptyDialOptions_ptr]\<rparr>
      in case applyOpts_ptr options opts s of
           (Inl f, s) \<Rightarrow> (Inl f, s)
         | (Inr _, s) \<Rightarrow>
            (case chainUnaryClientInterceptors_ptr options s of
               (Inl f, s) \<Rightarrow> (Inl f, s)
             | (Inr _, s) \<Rightarrow>
                (case chainStreamClientInterceptors_ptr options s of
                   (Inl f, s) \<Rightarrow> (Inl f, s)
                 | (Inr _, s) \<Rightarrow> (Inr options, s))))"

definition NewClientConnWithOptions_ptr ::
  "context \<Rightarrow> 'w dialer \<Rightarrow> 'w DialOption_ptr list \<Rightarrow> 'w store \<Rightarrow> 'w
     \<Rightarrow> (fault + 'w ClientConn option \<times> error option) \<times> 'w store \<times> 'w"
where
  "NewClientConnWithOptions_ptr ctx dialer dialOpts s w =
     (case dialer ctx w of
        (Inl f, w') \<Rightarrow> (Inl f, s, w')
      | (Inr (conn, Some err), w') \<Rightarrow> (Inr (None, Some err), s, w')
      | (Inr (conn, None), w') \<Rightarrow>
          (case newDialOptions_ptr dialOpts s of
             (Inl f, s') \<Rightarrow> (Inl f, s', w')
           | (Inr options, s') \<Rightarrow>
               (let clientConn = ClientConn conn options
                in (Inr (Some clientConn, None), s', w'))))"

text \<open>
  The body of the func literals. The loop reads the slice through \<open>d\<close> at every
  iteration; \<open>n\<close> is the one the closure holds. The interceptors and the terminal
  call work on the world, so the store is the same throughout a call.
\<close>

fun chainUnaryLoop_ptr ::
  "'w store \<Rightarrow> addr \<Rightarrow> 'w conn \<Rightarrow> nat \<Rightarrow> 'w UnaryInvoker \<Rightarrow> fault + 'w UnaryInvoker"
where
  "chainUnaryLoop_ptr s d conn 0 chained = Inr chained"
| "chainUnaryLoop_ptr s d conn (Suc i) chained =
     (case deref_ptr s d of
        None \<Rightarrow> Inl NilDereference
      | Some v \<Rightarrow>
          if i < length (unaryInts_ptr v) then
            (let next = chained;
                 interceptor = unaryInts_ptr v ! i
             in chainUnaryLoop_ptr s d conn i
                  (\<lambda>ctx rpc enc inm outm. interceptor ctx rpc enc inm outm conn next))
          else Inl (IndexOutOfRange i (length (unaryInts_ptr v))))"

fun chainStreamLoop_ptr ::
  "'w store \<Rightarrow> addr \<Rightarrow> 'w conn \<Rightarrow> nat \<Rightarrow> 'w Streamer \<Rightarrow> fault + 'w Streamer"
where
  "chainStreamLoop_ptr s d conn 0 chained = Inr chained"
| "chainStreamLoop_ptr s d conn (Suc i) chained =
     (case deref_ptr s d of
        None \<Rightarrow> Inl NilDereference
      | Some v \<Rightarrow>
          if i < length (streamInts_ptr v) then
            (let next = chained;
                 interceptor = streamInts_ptr v ! i
             in chainStreamLoop_ptr s d conn i
                  (\<lambda>ctx rpc enc. interceptor ctx rpc enc conn next))
          else Inl (IndexOutOfRange i (length (streamInts_ptr v))))"

fun callUnaryFunc :: "'w store \<Rightarrow> 'w unaryFunc \<Rightarrow> 'w UnaryClientInterceptor" where
  "callUnaryFunc s (UnarySupplied f) = f"
| "callUnaryFunc s (UnaryLiteral k n d) = (\<lambda>ctx rpc enc inm outm conn invoker w.
     case chainUnaryLoop_ptr s d conn n invoker of
       Inl f \<Rightarrow> (Inl f, w)
     | Inr chained \<Rightarrow> chained ctx rpc enc inm outm w)"

fun callStreamFunc :: "'w store \<Rightarrow> 'w streamFunc \<Rightarrow> 'w StreamClientInterceptor" where
  "callStreamFunc s (StreamSupplied f) = f"
| "callStreamFunc s (StreamLiteral k n d) = (\<lambda>ctx rpc enc conn streamer w.
     case chainStreamLoop_ptr s d conn n streamer of
       Inl f \<Rightarrow> (Inl f, w)
     | Inr chained \<Rightarrow> chained ctx rpc enc w)"

text \<open>
  \<open>Invoke\<close> and \<open>NewStream\<close> take the store and the world and return both. The
  method value \<open>c.Conn.Invoke\<close> handed to the chain is a call on the world.
\<close>

fun conn_Invoke_ptr :: "'w store \<Rightarrow> 'w conn \<Rightarrow> 'w UnaryInvoker"
and ClientConn_Invoke_ptr ::
  "'w ClientConn \<Rightarrow> context \<Rightarrow> string \<Rightarrow> encoding \<Rightarrow> message \<Rightarrow> message
     \<Rightarrow> 'w store \<Rightarrow> 'w \<Rightarrow> (fault + error option) \<times> 'w store \<times> 'w"
where
  "conn_Invoke_ptr s NilConn = (\<lambda>ctx rpc enc inm outm w. (Inl NilDereference, w))"
| "conn_Invoke_ptr s (Native u) = Invoke u"
| "conn_Invoke_ptr s (Wrapper c) = (\<lambda>ctx rpc enc inm outm w.
     case ClientConn_Invoke_ptr c ctx rpc enc inm outm s w of (r, s', w') \<Rightarrow> (r, w'))"
| "ClientConn_Invoke_ptr (ClientConn cn a) ctx rpc enc inm outm s w =
     (case cn of
        NilConn \<Rightarrow> (Inl NilDereference, s, w)
      | _ \<Rightarrow>
         (let invoker = conn_Invoke_ptr s cn
          in case deref_ptr s a of
               None \<Rightarrow> (Inl NilDereference, s, w)
             | Some v \<Rightarrow>
                (case chainedUnaryInt_ptr v of
                   Some chain \<Rightarrow>
                     (case callUnaryFunc s chain ctx rpc enc inm outm
                             (Wrapper (ClientConn cn a)) invoker w of
                        (r, w') \<Rightarrow> (r, s, w'))
                 | None \<Rightarrow>
                     (case invoker ctx rpc enc inm outm w of (r, w') \<Rightarrow> (r, s, w')))))"

fun conn_NewStream_ptr :: "'w store \<Rightarrow> 'w conn \<Rightarrow> 'w Streamer"
and ClientConn_NewStream_ptr ::
  "'w ClientConn \<Rightarrow> context \<Rightarrow> string \<Rightarrow> encoding
     \<Rightarrow> 'w store \<Rightarrow> 'w \<Rightarrow> (fault + stream option \<times> error option) \<times> 'w store \<times> 'w"
where
  "conn_NewStream_ptr s NilConn = (\<lambda>ctx rpc enc w. (Inl NilDereference, w))"
| "conn_NewStream_ptr s (Native u) = NewStream u"
| "conn_NewStream_ptr s (Wrapper c) = (\<lambda>ctx rpc enc w.
     case ClientConn_NewStream_ptr c ctx rpc enc s w of (r, s', w') \<Rightarrow> (r, w'))"
| "ClientConn_NewStream_ptr (ClientConn cn a) ctx rpc enc s w =
     (case cn of
        NilConn \<Rightarrow> (Inl NilDereference, s, w)
      | _ \<Rightarrow>
         (let streamer = conn_NewStream_ptr s cn
          in case deref_ptr s a of
               None \<Rightarrow> (Inl NilDereference, s, w)
             | Some v \<Rightarrow>
                (case chainedStreamInt_ptr v of
                   Some chain \<Rightarrow>
                     (case callStreamFunc s chain ctx rpc enc
                             (Wrapper (ClientConn cn a)) streamer w of
                        (r, w') \<Rightarrow> (r, s, w'))
                 | None \<Rightarrow>
                     (case streamer ctx rpc enc w of (r, w') \<Rightarrow> (r, s, w')))))"

section \<open>Notions used in the statements\<close>

text \<open>
  The nesting that a chain stands for: the first interceptor outermost, each one given
  the handle \<open>conn\<close> and the rest of the nest as its continuation, the terminal call
  innermost. The primed versions are those of package \<open>drpcinterceptors\<close>.
\<close>

definition nestUnary ::
  "'w UnaryClientInterceptor list \<Rightarrow> 'w conn \<Rightarrow> 'w UnaryInvoker \<Rightarrow> 'w UnaryInvoker" where
  "nestUnary ints conn invoker =
     foldr (\<lambda>interceptor next ctx rpc enc inm outm. interceptor ctx rpc enc inm outm conn next)
       ints invoker"

definition nestStream ::
  "'w StreamClientInterceptor list \<Rightarrow> 'w conn \<Rightarrow> 'w Streamer \<Rightarrow> 'w Streamer" where
  "nestStream ints conn streamer =
     foldr (\<lambda>interceptor next ctx rpc enc. interceptor ctx rpc enc conn next) ints streamer"


definition nestStream' ::
  "('h, 'w) StreamClientInterceptor' list \<Rightarrow> 'h \<Rightarrow> 'w Streamer' \<Rightarrow> 'w Streamer'" where
  "nestStream' ints conn streamer =
     foldr (\<lambda>interceptor next ctx method. interceptor ctx method conn next) ints streamer"





text \<open>
  An interceptor propagates the error of its continuation: whenever the continuation
  fails with \<open>e\<close>, so does the interceptor.
\<close>

definition propagatesUnary :: "'w UnaryClientInterceptor \<Rightarrow> bool" where
  "propagatesUnary i \<longleftrightarrow>
     (\<forall>next e.
        (\<forall>ctx rpc enc inm outm w. fst (next ctx rpc enc inm outm w) = Inr (Some e)) \<longrightarrow>
        (\<forall>ctx rpc enc inm outm conn w.
           fst (i ctx rpc enc inm outm conn next w) = Inr (Some e)))"

text \<open>
  A connection of the test: \<open>Invoke\<close> and \<open>NewStream\<close> return the given error
  (\<open>None\<close> for success) and, like every other method, leave their name in
  \<open>interceptorCalls\<close>. A dialer that returns a given connection, and one that fails.
\<close>

definition testConn :: "error option \<Rightarrow> ('z testWorld_scheme) drpcConn" where
  "testConn err =
     \<lparr>Invoke = (\<lambda>ctx rpc enc inm outm w. (Inr err, recordCall ''Invoke'' w)),
      NewStream = (\<lambda>ctx rpc enc w.
         (Inr (if err = None then Some (Stream 0) else None, err), recordCall ''NewStream'' w)),
      Other = (\<lambda>m w. (Inr (Any 0), recordCall m w))\<rparr>"

definition dialTo :: "'w conn \<Rightarrow> 'w dialer" where
  "dialTo conn = (\<lambda>ctx w. (Inr (conn, None), w))"

definition dialFails :: "error \<Rightarrow> 'w dialer" where
  "dialFails err = (\<lambda>ctx w. (Inr (NilConn, Some err), w))"

text \<open>
  The compiled fields of the options at an address. The fields and the compilers are
  unexported: an option, from the package or written by a caller, can reach the two
  slices (through the package's options) and nothing else of the store. Such an option
  keeps the compiled fields of every \<open>DialOptions\<close>, evaluates no func literal of a
  compiler, and allocates nothing.
\<close>

definition compiledFields ::
  "'w store \<Rightarrow> addr \<Rightarrow> ('w unaryFunc option \<times> 'w streamFunc option) option" where
  "compiledFields s a =
     map_option (\<lambda>v. (chainedUnaryInt_ptr v, chainedStreamInt_ptr v)) (deref_ptr s a)"

definition sameCompiled :: "'w store \<Rightarrow> 'w store \<Rightarrow> bool" where
  "sameCompiled s s' \<longleftrightarrow>
     literals s' = literals s \<and> length (cells s') = length (cells s)
     \<and> (\<forall>a. compiledFields s' a = compiledFields s a)"

definition keepsCompiled :: "'w DialOption_ptr \<Rightarrow> bool" where
  "keepsCompiled opt \<longleftrightarrow> (\<forall>p s. sameCompiled s (snd (opt p s)))"


text \<open>
  The options in memory seen as values: each \<open>DialOptions\<close> of the store with its
  func values replaced by what calling them does in that store.
\<close>

definition absCell :: "'w store \<Rightarrow> 'w DialOptions_ptr \<Rightarrow> 'w DialOptions" where
  "absCell s v =
     \<lparr>chainedUnaryInt = map_option (callUnaryFunc s) (chainedUnaryInt_ptr v),
      unaryInts = unaryInts_ptr v,
      chainedStreamInt = map_option (callStreamFunc s) (chainedStreamInt_ptr v),
      streamInts = streamInts_ptr v\<rparr>"

definition absHeap :: "'w store \<Rightarrow> 'w heap" where
  "absHeap s = map (absCell s) (cells s)"

section \<open>The compiled chains\<close>

text \<open>
  The loop wraps the continuation once per index, from the last index down: after it
  has run from \<open>k\<close>, the first \<open>k\<close> interceptors are nested around the terminal call.
\<close>

lemma chainUnaryLoop_nest:
  "k \<le> length ints \<Longrightarrow>
     chainUnaryLoop ints conn k chained = Inr (nestUnary (take k ints) conn chained)"
proof (induction k arbitrary: chained)
  case 0
  show ?case by (simp add: nestUnary_def)
next
  case (Suc i)
  then have i: "i < length ints" by simp
  let ?layer = "\<lambda>ctx rpc enc inm outm. (ints ! i) ctx rpc enc inm outm conn chained"
  have "chainUnaryLoop ints conn i ?layer = Inr (nestUnary (take i ints) conn ?layer)"
    using Suc.IH [of ?layer] i by simp
  with i show ?case
    by (simp add: nestUnary_def take_Suc_conv_app_nth)
qed

lemma chainStreamLoop_nest:
  "k \<le> length ints \<Longrightarrow>
     chainStreamLoop ints conn k chained = Inr (nestStream (take k ints) conn chained)"
proof (induction k arbitrary: chained)
  case 0
  show ?case by (simp add: nestStream_def)
next
  case (Suc i)
  then have i: "i < length ints" by simp
  let ?layer = "\<lambda>ctx rpc enc. (ints ! i) ctx rpc enc conn chained"
  have "chainStreamLoop ints conn i ?layer = Inr (nestStream (take i ints) conn ?layer)"
    using Suc.IH [of ?layer] i by simp
  with i show ?case
    by (simp add: nestStream_def take_Suc_conv_app_nth)
qed

text \<open>A bound beyond the slice panics at the first iteration, before any wrapping.\<close>

lemma chainStreamLoop_panic:
  "length ints < k \<Longrightarrow>
     chainStreamLoop ints conn k chained = Inl (IndexOutOfRange (k - 1) (length ints))"
  by (cases k) simp_all

lemma chainedUnaryInt_compiled:
  "chainedUnaryInt (chainStreamClientInterceptors (chainUnaryClientInterceptors d))
     = Some (\<lambda>ctx rpc enc inm outm conn invoker.
               nestUnary (unaryInts d) conn invoker ctx rpc enc inm outm)"
  by (simp add: chainStreamClientInterceptors_def chainUnaryClientInterceptors_def Let_def
        chainUnaryLoop_nest)

text \<open>
  The stream chain nests the first \<open>length (unaryInts d)\<close> stream interceptors, and
  panics when there are fewer stream interceptors than unary ones.
\<close>

lemma chainedStreamInt_compiled:
  "chainedStreamInt (chainStreamClientInterceptors (chainUnaryClientInterceptors d))
     = Some (\<lambda>ctx rpc enc conn streamer w.
         if length (unaryInts d) \<le> length (streamInts d)
         then nestStream (take (length (unaryInts d)) (streamInts d)) conn streamer ctx rpc enc w
         else (Inl (IndexOutOfRange (length (unaryInts d) - 1) (length (streamInts d))), w))"
  by (auto simp add: chainStreamClientInterceptors_def chainUnaryClientInterceptors_def Let_def
        chainStreamLoop_nest chainStreamLoop_panic fun_eq_iff)

lemma sequences_compiled:
  "unaryInts (chainStreamClientInterceptors (chainUnaryClientInterceptors d)) = unaryInts d"
  "streamInts (chainStreamClientInterceptors (chainUnaryClientInterceptors d)) = streamInts d"
  by (simp_all add: chainStreamClientInterceptors_def chainUnaryClientInterceptors_def Let_def)

text \<open>What a successful \<open>NewClientConnWithOptions\<close> leaves behind.\<close>

lemma built_cell:
  assumes "NewClientConnWithOptions ctx0 dialer dialOpts h0 w0 = (Inr (Some c, None), h, w1)"
  shows "deref h (dopts c) =
           Some (chainStreamClientInterceptors
                  (chainUnaryClientInterceptors (applyOpts emptyDialOptions dialOpts)))"
    and "dopts c = length h0"
    and "h = h0 @ [chainStreamClientInterceptors
                    (chainUnaryClientInterceptors (applyOpts emptyDialOptions dialOpts))]"
    and "dialer ctx0 w0 = (Inr (Conn c, None), w1)"
  using assms
  by (auto simp: NewClientConnWithOptions_def newDialOptions_def Let_def deref_def
           split: prod.splits sum.splits option.splits)

lemma ClientConn_Invoke_chain:
  assumes "Conn c \<noteq> NilConn" and "deref h (dopts c) = Some d"
    and "chainedUnaryInt d = Some chain"
  shows "ClientConn_Invoke h c ctx rpc enc inm outm w
           = chain ctx rpc enc inm outm (Wrapper c) (conn_Invoke h (Conn c)) w"
  using assms by (cases c) (simp split: conn.splits)

lemma ClientConn_NewStream_chain:
  assumes "Conn c \<noteq> NilConn" and "deref h (dopts c) = Some d"
    and "chainedStreamInt d = Some chain"
  shows "ClientConn_NewStream h c ctx rpc enc w
           = chain ctx rpc enc (Wrapper c) (conn_NewStream h (Conn c)) w"
  using assms by (cases c) (simp split: conn.splits)

text \<open>
  The calls of a built wrapper, in full: \<open>Invoke\<close> is the nest of all unary
  interceptors around the underlying \<open>Invoke\<close>, each handed the wrapper;
  \<open>NewStream\<close> is the nest of the first \<open>length unaryInts\<close> stream interceptors
  around the underlying \<open>NewStream\<close>, or a panic when there are not that many.
\<close>

lemma ClientConn_Invoke_nest:
  assumes "NewClientConnWithOptions ctx0 dialer dialOpts h0 w0 = (Inr (Some c, None), h, w1)"
    and "Conn c \<noteq> NilConn"
  shows "ClientConn_Invoke h c ctx rpc enc inm outm w
           = nestUnary (unaryInts (applyOpts emptyDialOptions dialOpts)) (Wrapper c)
               (conn_Invoke h (Conn c)) ctx rpc enc inm outm w"
  using ClientConn_Invoke_chain [OF assms(2) built_cell(1) [OF assms(1)] chainedUnaryInt_compiled]
  by simp

lemma ClientConn_NewStream_nest:
  assumes "NewClientConnWithOptions ctx0 dialer dialOpts h0 w0 = (Inr (Some c, None), h, w1)"
    and "Conn c \<noteq> NilConn"
  shows "ClientConn_NewStream h c ctx rpc enc w
           = (let us = unaryInts (applyOpts emptyDialOptions dialOpts);
                  ss = streamInts (applyOpts emptyDialOptions dialOpts)
              in if length us \<le> length ss
                 then nestStream (take (length us) ss) (Wrapper c)
                        (conn_NewStream h (Conn c)) ctx rpc enc w
                 else (Inl (IndexOutOfRange (length us - 1) (length ss)), w))"
  using ClientConn_NewStream_chain
          [OF assms(2) built_cell(1) [OF assms(1)] chainedStreamInt_compiled]
  by (simp add: Let_def)




lemma conn_Other_heap:
  "conn_Other h k = conn_Other h' k" and "ClientConn_Other h c = ClientConn_Other h' c"
  by (induction k and c) simp_all

section \<open>The options in memory\<close>

text \<open>
  The package's options keep the compiled fields, and so does any list of options that
  do.
\<close>

lemma sameCompiled_refl: "sameCompiled s s"
  by (simp add: sameCompiled_def)

lemma sameCompiled_trans: "sameCompiled s s' \<Longrightarrow> sameCompiled s' s'' \<Longrightarrow> sameCompiled s s''"
  by (simp add: sameCompiled_def)



lemma applyOpts_ptr_sameCompiled:
  "\<forall>opt \<in> set opts. keepsCompiled opt \<Longrightarrow> sameCompiled s (snd (applyOpts_ptr p opts s))"
proof (induction opts arbitrary: s)
  case Nil
  show ?case by (simp add: sameCompiled_refl)
next
  case (Cons opt opts)
  then have k: "sameCompiled s (snd (opt p s))" by (simp add: keepsCompiled_def)
  obtain r s' where o: "opt p s = (r, s')" by (cases "opt p s")
  show ?case
  proof (cases r)
    case (Inl f)
    with o k show ?thesis by simp
  next
    case (Inr u)
    have "sameCompiled s' (snd (applyOpts_ptr p opts s'))" using Cons by simp
    with o k Inr show ?thesis by (auto intro: sameCompiled_trans)
  qed
qed

text \<open>
  A closure of a compiler reads the slice of its \<open>DialOptions\<close> when it is called. With
  the \<open>n\<close> it holds, its call is the nest of the value model over that slice.
\<close>

lemma chainUnaryLoop_ptr_eq:
  "deref_ptr s d = Some v \<Longrightarrow>
     chainUnaryLoop_ptr s d conn k chained = chainUnaryLoop (unaryInts_ptr v) conn k chained"
  by (induction k arbitrary: chained) simp_all

lemma chainStreamLoop_ptr_eq:
  "deref_ptr s d = Some v \<Longrightarrow>
     chainStreamLoop_ptr s d conn k chained = chainStreamLoop (streamInts_ptr v) conn k chained"
  by (induction k arbitrary: chained) simp_all

lemma callUnaryFunc_literal:
  assumes "deref_ptr s d = Some v" and "n = length (unaryInts_ptr v)"
  shows "callUnaryFunc s (UnaryLiteral k n d)
           = (\<lambda>ctx rpc enc inm outm conn invoker.
                nestUnary (unaryInts_ptr v) conn invoker ctx rpc enc inm outm)"
  using assms by (simp add: chainUnaryLoop_ptr_eq chainUnaryLoop_nest del: chainUnaryLoop.simps)

lemma callStreamFunc_literal:
  assumes "deref_ptr s d = Some v"
  shows "callStreamFunc s (StreamLiteral k n d)
           = (\<lambda>ctx rpc enc conn streamer w.
                if n \<le> length (streamInts_ptr v)
                then nestStream (take n (streamInts_ptr v)) conn streamer ctx rpc enc w
                else (Inl (IndexOutOfRange (n - 1) (length (streamInts_ptr v))), w))"
  using assms
  by (auto simp add: fun_eq_iff chainStreamLoop_ptr_eq chainStreamLoop_nest chainStreamLoop_panic
           simp del: chainStreamLoop.simps)







text \<open>What \<open>newDialOptions\<close> returns.\<close>

lemma newDialOptions_ptr_result:
  assumes new: "newDialOptions_ptr opts s0 = (Inr d, s1)"
    and opts: "\<forall>opt \<in> set opts. keepsCompiled opt"
  shows "\<exists>sa v. applyOpts_ptr d opts (s0\<lparr>cells := cells s0 @ [emptyDialOptions_ptr]\<rparr>) = (Inr (), sa)
           \<and> d = length (cells s0) \<and> literals s1 = literals s0 + 2
           \<and> deref_ptr s1 d = Some v
           \<and> unaryInts_ptr v = unaryInts_ptr (cells sa ! d)
           \<and> streamInts_ptr v = streamInts_ptr (cells sa ! d)
           \<and> chainedUnaryInt_ptr v
               = Some (UnaryLiteral (literals s0) (length (unaryInts_ptr v)) d)
           \<and> chainedStreamInt_ptr v
               = Some (StreamLiteral (Suc (literals s0)) (length (unaryInts_ptr v)) d)"
proof -
  let ?p = "length (cells s0)"
  let ?s0 = "s0\<lparr>cells := cells s0 @ [emptyDialOptions_ptr]\<rparr>"
  obtain r1 sa where ap: "applyOpts_ptr ?p opts ?s0 = (r1, sa)"
    by (cases "applyOpts_ptr ?p opts ?s0")
  from applyOpts_ptr_sameCompiled [OF opts, of ?s0 ?p] ap
  have same: "literals sa = literals s0" "length (cells sa) = Suc (length (cells s0))"
    by (simp_all add: sameCompiled_def)
  from new ap have r1: "r1 = Inr ()"
    by (cases r1) (auto simp: newDialOptions_ptr_def Let_def)
  from new ap r1 same show ?thesis
    by (auto simp: newDialOptions_ptr_def Let_def chainUnaryClientInterceptors_ptr_def
          chainStreamClientInterceptors_ptr_def deref_ptr_def assign_def
          split: prod.splits sum.splits)
qed




text \<open>
  The two models agree. A call in the store is the call of the value model on the
  options seen as values, and the \<open>DialOptions\<close> that \<open>newDialOptions\<close> has just
  compiled, seen as a value, is what the compilers of the value model make of its two
  slices.
\<close>

lemma deref_absHeap: "deref (absHeap s) a = map_option (absCell s) (deref_ptr s a)"
  by (simp add: deref_def deref_ptr_def absHeap_def)

lemma Invoke_ptr_abs:
  "conn_Invoke_ptr s k = conn_Invoke (absHeap s) k"
  "ClientConn_Invoke_ptr c ctx rpc enc inm outm s w
     = (case ClientConn_Invoke (absHeap s) c ctx rpc enc inm outm w of (r, w') \<Rightarrow> (r, s, w'))"
proof (induction k and c arbitrary: and ctx rpc enc inm outm w)
  case (ClientConn cn a)
  then show ?case
    by (cases cn)
       (auto simp: deref_absHeap absCell_def Let_def split: option.splits prod.splits)
qed (simp_all add: fun_eq_iff split: prod.splits)

lemma NewStream_ptr_abs:
  "conn_NewStream_ptr s k = conn_NewStream (absHeap s) k"
  "ClientConn_NewStream_ptr c ctx rpc enc s w
     = (case ClientConn_NewStream (absHeap s) c ctx rpc enc w of (r, w') \<Rightarrow> (r, s, w'))"
proof (induction k and c arbitrary: and ctx rpc enc w)
  case (ClientConn cn a)
  then show ?case
    by (cases cn)
       (auto simp: deref_absHeap absCell_def Let_def split: option.splits prod.splits)
qed (simp_all add: fun_eq_iff split: prod.splits)

lemma newDialOptions_ptr_abs:
  assumes "newDialOptions_ptr opts s0 = (Inr d, s1)"
    and "\<forall>opt \<in> set opts. keepsCompiled opt"
  shows "\<exists>v. deref_ptr s1 d = Some v
           \<and> absCell s1 v
               = chainStreamClientInterceptors (chainUnaryClientInterceptors
                   (emptyDialOptions\<lparr>unaryInts := unaryInts_ptr v,
                                       streamInts := streamInts_ptr v\<rparr>))"
proof -
  from newDialOptions_ptr_result [OF assms] obtain v where
    v: "deref_ptr s1 d = Some v"
       "chainedUnaryInt_ptr v = Some (UnaryLiteral (literals s0) (length (unaryInts_ptr v)) d)"
       "chainedStreamInt_ptr v
          = Some (StreamLiteral (Suc (literals s0)) (length (unaryInts_ptr v)) d)"
    by blast
  let ?e = "emptyDialOptions\<lparr>unaryInts := unaryInts_ptr v, streamInts := streamInts_ptr v\<rparr>"
  let ?c = "chainStreamClientInterceptors (chainUnaryClientInterceptors ?e)"
  have e: "unaryInts ?e = unaryInts_ptr v" "streamInts ?e = streamInts_ptr v"
    by (simp_all add: emptyDialOptions_def)
  have 1: "chainedUnaryInt (absCell s1 v) = chainedUnaryInt ?c"
    unfolding chainedUnaryInt_compiled e
    by (simp add: absCell_def v(2) callUnaryFunc_literal [OF v(1) refl]
             del: callUnaryFunc.simps)
  have 2: "chainedStreamInt (absCell s1 v) = chainedStreamInt ?c"
    unfolding chainedStreamInt_compiled e
    by (simp add: absCell_def v(3) callStreamFunc_literal [OF v(1)]
             del: callStreamFunc.simps)
  have 3: "unaryInts (absCell s1 v) = unaryInts ?c" "streamInts (absCell s1 v) = streamInts ?c"
    unfolding sequences_compiled e by (simp_all add: absCell_def)
  have "absCell s1 v = ?c"
    using 1 2 3 by (intro DialOptions.equality) simp_all
  with v(1) show ?thesis by blast
qed

section \<open>Order of entry and exit\<close>

lemma nestUnary_Cons:
  "nestUnary (i # ints) conn invoker ctx rpc enc inm outm w
     = i ctx rpc enc inm outm conn (nestUnary ints conn invoker) w"
  by (simp add: nestUnary_def)

lemma nestUnary_interceptors:
  assumes "invoker ctx rpc enc inm outm
             (w\<lparr>interceptorCalls := interceptorCalls w @ map (\<lambda>n. n @ ''_before'') names\<rparr>)
           = (Inr err, w')"
  shows "nestUnary (map interceptor names) conn invoker ctx rpc enc inm outm w
           = (Inr err,
              w'\<lparr>interceptorCalls := interceptorCalls w' @ map (\<lambda>n. n @ ''_after'') (rev names)\<rparr>)"
  using assms
proof (induction names arbitrary: w w')
  case Nil
  then show ?case by (simp add: nestUnary_def)
next
  case (Cons n ns)
  let ?w1 = "recordCall (n @ ''_before'') w"
  have "invoker ctx rpc enc inm outm
          (?w1\<lparr>interceptorCalls := interceptorCalls ?w1 @ map (\<lambda>n. n @ ''_before'') ns\<rparr>)
        = (Inr err, w')"
    using Cons.prems by (simp add: recordCall_def)
  from Cons.IH [of ?w1 w', OF this]
  show ?case
    by (simp add: nestUnary_Cons interceptor_def Let_def recordCall_def)
qed

text \<open>
  C1. A connection is built with the unary interceptors \<open>interceptor n\<close> for the names
  \<open>n\<close> of a list of at least two names, each of which records \<open>n_before\<close>, calls its
  continuation and records \<open>n_after\<close>. In one \<open>Invoke\<close> call the \<open>before\<close> entries are
  recorded in the configured order, then the terminal call runs, then the \<open>after\<close>
  entries are recorded in the reverse order. The terminal call may return \<open>nil\<close> or an
  error (\<open>err\<close> is either), and \<open>Invoke\<close> returns what it returned.
\<close>

theorem unary_chain_order:
  assumes built: "NewClientConnWithOptions ctx0 dialer dialOpts h0 w0 = (Inr (Some c, None), h, w1)"
    and ints: "unaryInts (applyOpts emptyDialOptions dialOpts) = map interceptor names"
    and n2: "2 \<le> length names"
    and terminal: "conn_Invoke h (Conn c) ctx rpc enc inm outm
             (w\<lparr>interceptorCalls := interceptorCalls w @ map (\<lambda>n. n @ ''_before'') names\<rparr>)
           = (Inr err, w')"
  shows "ClientConn_Invoke h c ctx rpc enc inm outm w
           = (Inr err,
              w'\<lparr>interceptorCalls := interceptorCalls w' @ map (\<lambda>n. n @ ''_after'') (rev names)\<rparr>)"
proof -
  from terminal have nn: "Conn c \<noteq> NilConn" by (cases "Conn c") auto
  show ?thesis
    using ClientConn_Invoke_chain [OF nn built_cell(1) [OF built] chainedUnaryInt_compiled]
          nestUnary_interceptors [of "conn_Invoke h (Conn c)" ctx rpc enc inm outm w names err w'
            "Wrapper c", OF terminal] ints
    by simp
qed

theorem unary_chain_order_witness:
  "ClientConn_Invoke
     (snd (newDialOptions
        [WithChainUnaryInterceptor [interceptor ''interceptor1'', interceptor ''interceptor2'']] []))
     (ClientConn (Native (testConn (Some (Error ''E'')))) 0)
     (Context 0) ''TestMethod'' (Encoding 0) (Message 0) (Message 1) \<lparr>interceptorCalls = []\<rparr>
   = (Inr (Some (Error ''E'')),
      \<lparr>interceptorCalls = [''interceptor1_before'', ''interceptor2_before'', ''Invoke'',
                            ''interceptor2_after'', ''interceptor1_after'']\<rparr>)"
  using unary_chain_order [of "Context 0" "dialTo (Native (testConn (Some (Error ''E''))))"
      "[WithChainUnaryInterceptor [interceptor ''interceptor1'', interceptor ''interceptor2'']]"
      "[]" "\<lparr>interceptorCalls = []\<rparr>" "ClientConn (Native (testConn (Some (Error ''E'')))) 0"
      "snd (newDialOptions
         [WithChainUnaryInterceptor [interceptor ''interceptor1'', interceptor ''interceptor2'']] [])"
      "\<lparr>interceptorCalls = []\<rparr>"
      "[''interceptor1'', ''interceptor2'']"
      "Context 0" "''TestMethod''" "Encoding 0" "Message 0" "Message 1" "\<lparr>interceptorCalls = []\<rparr>"
      "Some (Error ''E'')"
      "\<lparr>interceptorCalls = [''interceptor1_before'', ''interceptor2_before'', ''Invoke'']\<rparr>"]
  by (simp add: NewClientConnWithOptions_def newDialOptions_def Let_def emptyDialOptions_def
        WithChainUnaryInterceptor_def dialTo_def testConn_def recordCall_def)

section \<open>The stream chain\<close>

text \<open>
  C2. The claim is that the compiled stream chain runs exactly the configured stream
  interceptors whatever the unary list is. The code takes the loop bound of the stream
  chain from the unary list. Here a connection is built with one stream interceptor
  and no unary interceptor: \<open>NewStream\<close> opens the stream on the underlying
  connection and \<open>stream1\<close> is never entered (no \<open>stream1_before\<close> is recorded).
\<close>

theorem stream_chain_skips_interceptor:
  "(case NewClientConnWithOptions (Context 0) (dialTo (Native (testConn None)))
           [WithChainStreamInterceptor [streamInterceptor ''stream1'']] []
           \<lparr>interceptorCalls = []\<rparr>
    of (Inr (Some c, None), h, w) \<Rightarrow>
         ClientConn_NewStream h c (Context 0) ''TestMethod'' (Encoding 0) w
           = (Inr (Some (Stream 0), None), \<lparr>interceptorCalls = [''NewStream'']\<rparr>)
     | _ \<Rightarrow> False)"
  by (simp add: NewClientConnWithOptions_def newDialOptions_def Let_def emptyDialOptions_def
        WithChainStreamInterceptor_def dialTo_def testConn_def recordCall_def deref_def
        chainUnaryClientInterceptors_def chainStreamClientInterceptors_def)


lemma ChainStreamLoop_nest:
  "k \<le> length ints \<Longrightarrow>
     ChainStreamLoop ints conn k chained = Inr (nestStream' (take k ints) conn chained)"
proof (induction k arbitrary: chained)
  case 0
  show ?case by (simp add: nestStream'_def)
next
  case (Suc i)
  then have i: "i < length ints" by simp
  let ?layer = "\<lambda>ctx method. (ints ! i) ctx method conn chained"
  have "ChainStreamLoop ints conn i ?layer = Inr (nestStream' (take i ints) conn ?layer)"
    using Suc.IH [of ?layer] i by simp
  with i show ?case
    by (simp add: nestStream'_def take_Suc_conv_app_nth)
qed


lemma ChainStreamClientInterceptors_compiled:
  "StreamInt (ChainStreamClientInterceptors d) =
     (if streamInts' d = [] then None
      else Some (\<lambda>ctx method conn streamer.
                   nestStream' (streamInts' d) conn streamer ctx method))"
proof -
  consider "streamInts' d = []" | i where "streamInts' d = [i]" | "2 \<le> length (streamInts' d)"
    by (cases "streamInts' d"; cases "tl (streamInts' d)") auto
  then show ?thesis
  proof cases
    case 1
    then show ?thesis by (simp add: ChainStreamClientInterceptors_def)
  next
    case 2
    then show ?thesis by (simp add: ChainStreamClientInterceptors_def nestStream'_def)
  next
    case 3
    then have "length (streamInts' d) \<noteq> 0" "length (streamInts' d) \<noteq> 1" "streamInts' d \<noteq> []"
      by auto
    then show ?thesis
      by (simp add: ChainStreamClientInterceptors_def Let_def ChainStreamLoop_nest
               del: ChainStreamLoop.simps)
  qed
qed

lemma ChainStreamClientInterceptors_unary_list:
  "StreamInt (ChainStreamClientInterceptors (d\<lparr>unaryInts' := us\<rparr>))
     = StreamInt (ChainStreamClientInterceptors d)"
  by (simp add: ChainStreamClientInterceptors_compiled)

section \<open>No interceptor and one interceptor\<close>

text \<open>
  C3. The claim is that with no interceptor the compiled chain fields are \<open>nil\<close>. In
  package \<open>drcpclient\<close> they are not: a connection built with no option has both lists
  empty and both compiled fields set, so \<open>Invoke\<close> and \<open>NewStream\<close> take the branch
  that calls the compiled closure.
\<close>

theorem empty_chains_are_not_nil:
  "(case NewClientConnWithOptions (Context 0) (dialTo (Native (testConn None))) []
           [] \<lparr>interceptorCalls = []\<rparr>
    of (Inr (Some c, None), h, w) \<Rightarrow>
         (case deref h (dopts c) of
            Some d \<Rightarrow> unaryInts d = [] \<and> streamInts d = []
                      \<and> chainedUnaryInt d \<noteq> None \<and> chainedStreamInt d \<noteq> None
          | None \<Rightarrow> False)
     | _ \<Rightarrow> False)"
  by (simp add: NewClientConnWithOptions_def newDialOptions_def Let_def emptyDialOptions_def
        dialTo_def deref_def chainUnaryClientInterceptors_def chainStreamClientInterceptors_def)

text \<open>The compiler of package \<open>drpcinterceptors\<close> sets them to \<open>nil\<close>.\<close>

lemma Chain_Interceptors_nil:
  "unaryInts' d = [] \<Longrightarrow> UnaryInt (ChainUnaryClientInterceptors d) = None"
  "streamInts' d = [] \<Longrightarrow> StreamInt (ChainStreamClientInterceptors d) = None"
  by (simp_all add: ChainUnaryClientInterceptors_def ChainStreamClientInterceptors_def)

text \<open>
  C7. The claim is that with exactly one unary interceptor the compiled chain is that
  interceptor itself, with no wrapping layer. The compiler of package \<open>drcpclient\<close>
  has no case for one interceptor: it assigns its func literal, as for any other
  number, and a call of that closure builds a second closure that calls the
  interceptor. What such a call does is what the interceptor does with the wrapper as
  handle and the underlying \<open>Invoke\<close> as continuation, which is the first lemma; as
  functions of the value model the closure and the interceptor cannot be told apart.
  In memory the field holds the closure of the compiler and not the func the caller
  supplied, which is the second lemma.
\<close>

lemma single_interceptor_behaviour:
  assumes built: "NewClientConnWithOptions ctx0 dialer dialOpts h0 w0 = (Inr (Some c, None), h, w1)"
    and one: "unaryInts (applyOpts emptyDialOptions dialOpts) = [i]"
    and nn: "Conn c \<noteq> NilConn"
  shows "ClientConn_Invoke h c ctx rpc enc inm outm w
           = i ctx rpc enc inm outm (Wrapper c) (conn_Invoke h (Conn c)) w"
  using ClientConn_Invoke_nest [OF built nn] by (simp add: one nestUnary_def)

lemma single_interceptor_field_is_closure:
  "(case NewClientConnWithOptions_ptr (Context 0) (dialTo (Native (testConn None)))
           [WithChainUnaryInterceptor_ptr [interceptor ''interceptor1'']]
           \<lparr>cells = [], literals = 0\<rparr> \<lparr>interceptorCalls = []\<rparr>
    of (Inr (Some c, None), s, w) \<Rightarrow>
         (case deref_ptr s (dopts c) of
            Some v \<Rightarrow> unaryInts_ptr v = [interceptor ''interceptor1'']
                      \<and> chainedUnaryInt_ptr v = Some (UnaryLiteral 0 1 0)
          | None \<Rightarrow> False)
     | _ \<Rightarrow> False)"
  by (simp add: NewClientConnWithOptions_ptr_def newDialOptions_ptr_def Let_def dialTo_def
        WithChainUnaryInterceptor_ptr_def deref_ptr_def assign_def emptyDialOptions_ptr_def
        chainUnaryClientInterceptors_ptr_def chainStreamClientInterceptors_ptr_def)

text \<open>Package \<open>drpcinterceptors\<close> assigns the interceptor itself.\<close>

lemma Chain_Interceptors_single:
  "unaryInts' d = [i] \<Longrightarrow> UnaryInt (ChainUnaryClientInterceptors d) = Some i"
  "streamInts' d = [s] \<Longrightarrow> StreamInt (ChainStreamClientInterceptors d) = Some s"
  by (simp_all add: ChainUnaryClientInterceptors_def ChainStreamClientInterceptors_def)

text \<open>
  C8. When no interceptor is configured, unary or stream, \<open>Invoke\<close> and \<open>NewStream\<close>
  on the wrapper return what the same call on the underlying connection returns, and
  leave the same world: for every outcome, success, error or panic.
\<close>

theorem no_interceptors_passthrough:
  assumes built: "NewClientConnWithOptions ctx0 dialer dialOpts h0 w0 = (Inr (Some c, None), h, w1)"
    and nou: "unaryInts (applyOpts emptyDialOptions dialOpts) = []"
    and nos: "streamInts (applyOpts emptyDialOptions dialOpts) = []"
  shows "ClientConn_Invoke h c ctx rpc enc inm outm w
           = conn_Invoke h (Conn c) ctx rpc enc inm outm w
         \<and> ClientConn_NewStream h c ctx rpc enc w = conn_NewStream h (Conn c) ctx rpc enc w"
proof (cases "Conn c = NilConn")
  case True
  then show ?thesis by (cases c) simp
next
  case False
  show ?thesis
    using ClientConn_Invoke_chain [OF False built_cell(1) [OF built] chainedUnaryInt_compiled]
          ClientConn_NewStream_chain [OF False built_cell(1) [OF built] chainedStreamInt_compiled]
    by (simp add: nou nos nestUnary_def nestStream_def)
qed

theorem no_interceptors_passthrough_witness:
  "ClientConn_Invoke (snd (newDialOptions [] []))
       (ClientConn (Native (testConn (Some (Error ''E'')))) 0)
       (Context 0) ''TestMethod'' (Encoding 0) (Message 0) (Message 1) \<lparr>interceptorCalls = []\<rparr>
     = (Inr (Some (Error ''E'')), \<lparr>interceptorCalls = [''Invoke'']\<rparr>)
   \<and> ClientConn_NewStream (snd (newDialOptions [] []))
       (ClientConn (Native (testConn (Some (Error ''E'')))) 0)
       (Context 0) ''TestMethod'' (Encoding 0) \<lparr>interceptorCalls = []\<rparr>
     = (Inr (None, Some (Error ''E'')), \<lparr>interceptorCalls = [''NewStream'']\<rparr>)"
  using no_interceptors_passthrough [of "Context 0"
      "dialTo (Native (testConn (Some (Error ''E''))))" "[]" "[]"
      "\<lparr>interceptorCalls = []\<rparr>" "ClientConn (Native (testConn (Some (Error ''E'')))) 0"
      "snd (newDialOptions [] [])" "\<lparr>interceptorCalls = []\<rparr>"
      "Context 0" "''TestMethod''" "Encoding 0" "Message 0" "Message 1" "\<lparr>interceptorCalls = []\<rparr>"]
  by (simp add: NewClientConnWithOptions_def newDialOptions_def Let_def emptyDialOptions_def
        dialTo_def testConn_def recordCall_def)

section \<open>Construction\<close>









text \<open>
  C6. When the dialer returns an error, \<open>NewClientConnWithOptions\<close> returns no
  connection and that error. No options are allocated, and the world is the one the dialer
  left: whatever the options hold, no interceptor has run.
\<close>

theorem dial_error_returned:
  assumes "dialer ctx w = (Inr (conn, Some err), w')"
  shows "NewClientConnWithOptions ctx dialer dialOpts h w = (Inr (None, Some err), h, w')"
  using assms by (simp add: NewClientConnWithOptions_def)

theorem dial_error_returned_witness:
  "NewClientConnWithOptions (Context 0) (dialFails (Error ''refused''))
     [WithChainUnaryInterceptor [interceptor ''interceptor1''],
      WithChainStreamInterceptor [streamInterceptor ''stream1'']] [] \<lparr>interceptorCalls = []\<rparr>
   = (Inr (None, Some (Error ''refused'')), [], \<lparr>interceptorCalls = []\<rparr>)"
  using dial_error_returned [of "dialFails (Error ''refused'')" "Context 0"
      "\<lparr>interceptorCalls = []\<rparr>" NilConn "Error ''refused''" "\<lparr>interceptorCalls = []\<rparr>"
      "[WithChainUnaryInterceptor [interceptor ''interceptor1''],
        WithChainStreamInterceptor [streamInterceptor ''stream1'']]" "[]"]
  by (simp add: dialFails_def)

section \<open>Errors of the terminal call\<close>

text \<open>
  When every unary interceptor propagates the error of its continuation and the
  underlying \<open>Invoke\<close> fails with \<open>e\<close>, so does \<open>Invoke\<close> on the wrapper.
\<close>

lemma nestUnary_propagates:
  assumes "\<forall>i \<in> set ints. propagatesUnary i"
    and "\<forall>ctx rpc enc inm outm w. fst (invoker ctx rpc enc inm outm w) = Inr (Some e)"
  shows "\<forall>ctx rpc enc inm outm w.
           fst (nestUnary ints conn invoker ctx rpc enc inm outm w) = Inr (Some e)"
  using assms
proof (induction ints)
  case Nil
  then show ?case by (simp add: nestUnary_def)
next
  case (Cons i ints)
  then have "\<forall>ctx rpc enc inm outm w.
               fst (nestUnary ints conn invoker ctx rpc enc inm outm w) = Inr (Some e)"
    by simp
  moreover have "propagatesUnary i" using Cons.prems by simp
  ultimately show ?case
    unfolding nestUnary_Cons propagatesUnary_def by blast
qed

lemma Invoke_returns_terminal_error:
  assumes built: "NewClientConnWithOptions ctx0 dialer dialOpts h0 w0 = (Inr (Some c, None), h, w1)"
    and props: "\<forall>i \<in> set (unaryInts (applyOpts emptyDialOptions dialOpts)). propagatesUnary i"
    and fails: "\<forall>ctx rpc enc inm outm w.
                  fst (conn_Invoke h (Conn c) ctx rpc enc inm outm w) = Inr (Some e)"
  shows "fst (ClientConn_Invoke h c ctx rpc enc inm outm w) = Inr (Some e)"
proof -
  from fails have nn: "Conn c \<noteq> NilConn" by (cases "Conn c") auto
  show ?thesis
    using ClientConn_Invoke_chain [OF nn built_cell(1) [OF built] chainedUnaryInt_compiled]
          nestUnary_propagates [OF props fails]
    by simp
qed

text \<open>
  C5. The claim is that \<open>Invoke\<close> and \<open>NewStream\<close> return the error of the terminal
  call when every interceptor propagates it. For \<open>Invoke\<close> this is the lemma above.
  For \<open>NewStream\<close> it fails: a connection is built with one unary interceptor and no
  stream interceptor, over a connection whose \<open>NewStream\<close> fails with \<open>E\<close>. The stream
  chain indexes the empty stream list at the bound of the unary list: \<open>NewStream\<close>
  panics, and the terminal call is never made (nothing is recorded).
\<close>

theorem NewStream_panics_without_stream_interceptors:
  "(case NewClientConnWithOptions (Context 0) (dialTo (Native (testConn (Some (Error ''E'')))))
           [WithChainUnaryInterceptor [interceptor ''interceptor1'']] []
           \<lparr>interceptorCalls = []\<rparr>
    of (Inr (Some c, None), h, w) \<Rightarrow>
         ClientConn_NewStream h c (Context 0) ''TestMethod'' (Encoding 0) w
           = (Inl (IndexOutOfRange 0 0), \<lparr>interceptorCalls = []\<rparr>)
     | _ \<Rightarrow> False)"
  by (simp add: NewClientConnWithOptions_def newDialOptions_def Let_def emptyDialOptions_def
        WithChainUnaryInterceptor_def dialTo_def deref_def
        chainUnaryClientInterceptors_def chainStreamClientInterceptors_def)

section \<open>The handle given to the interceptors\<close>





section \<open>The other methods of the connection\<close>

text \<open>
  C10. A method of \<open>drpc.Conn\<close> other than \<open>Invoke\<close> and \<open>NewStream\<close>, called on a
  wrapper, is the same method of the embedded connection. Its outcome and the world it
  leaves are the same in every heap, that is, whatever interceptors the options of this
  or any other wrapper hold: none of them runs.
\<close>

theorem other_methods_delegated:
  "ClientConn_Other h c m w = conn_Other h' (Conn c) m w"
  using conn_Other_heap(1) [of h "Conn c" h'] by (cases c) simp

end
